theory Spec2Isabelle
  imports Complex_Main "HOL-Library.Multiset"
begin

section \<open>PropertyPal: a retrieval-augmented real-estate chatbot (app.py)\<close>

text \<open>
  The program is a Streamlit script around the class \<open>RealEstateChatbot\<close>. Everything
  the class does beyond control flow is a call to an external boundary (the file system,
  the OpenAI services, the langchain and Chroma libraries). The model makes the
  boundaries explicit: a \<open>world\<close> holds what each boundary answers, a log of the calls
  made to the services, and the messages shown on the page. Methods take the object and
  the world and return the updated ones; a raised Python exception is the left injection
  of a sum and carries the text of \<open>str(e)\<close>.
\<close>

subsection \<open>Strings\<close>

text \<open>
  A Python string is the list of its code points, and a character of the model is a code
  point below 256. \<open>str.strip()\<close> removes leading and trailing white space; the code
  points below 256 that Python counts as white space are TAB, LF, VT, FF and CR (9 to 13),
  the separators 0x1C to 0x1F, the blank (32), NEL (0x85) and the no-break space (0xA0).
  \<open>str.upper()\<close> is given on the ASCII letters. Python also maps letters beyond ASCII,
  to images that are no letters of the word GENERAL, so the test of the intent against
  that word is the same under both.
\<close>

definition is_space :: "char \<Rightarrow> bool" where
  "is_space c =
     (let n = (of_char c :: nat)
      in (9 \<le> n \<and> n \<le> 13) \<or> (28 \<le> n \<and> n \<le> 32) \<or> n = 133 \<or> n = 160)"

definition upper_char :: "char \<Rightarrow> char" where
  "upper_char c = (let n = (of_char c :: nat) in if 97 \<le> n \<and> n \<le> 122 then char_of (n - 32) else c)"

definition upper :: "string \<Rightarrow> string" where
  "upper s = map upper_char s"

definition strip :: "string \<Rightarrow> string" where
  "strip s = rev (dropWhile is_space (rev (dropWhile is_space s)))"

subsection \<open>Data\<close>

type_synonym exn = string

text \<open>A langchain \<open>Document\<close> as \<open>CSVLoader\<close> makes it: the text of one row and its origin.\<close>

record document =
  page_content :: string
  source :: string
  row :: nat

record message =
  role :: string
  content :: string

text \<open>The objects the libraries hand back, each holding the arguments it was built from.\<close>

datatype openai_embeddings = OpenAIEmbeddings string string

datatype chroma = Chroma string openai_embeddings "document list"

datatype vs_retriever = VectorStoreRetriever chroma string nat

datatype chat_openai = ChatOpenAI string int string

text \<open>The prompt template of lines 96 to 114, over the variables context and question.\<close>

datatype prompt_template = PropertyPrompt

datatype retrieval_qa = RetrievalQA chat_openai string vs_retriever bool prompt_template

record chatbot =
  vectorstore :: "chroma option"
  retriever :: "vs_retriever option"
  chain :: "retrieval_qa option"
  chat_model :: "chat_openai option"

text \<open>
  The two f-string prompts sent through \<open>chat_model.predict\<close>: each is a fixed text
  around the query, so the prompt is its kind and the query.
\<close>

datatype llm_prompt = ClassificationPrompt string | GeneralPrompt string

text \<open>
  The dictionary a \<open>RetrievalQA\<close> call returns, by the two keys the program reads;
  \<open>None\<close> is a missing key.
\<close>

record chain_result =
  res_result :: "string option"
  res_source_documents :: "document list option"

text \<open>The external calls of \<open>initialize_components\<close> that can raise.\<close>

datatype step = TestApiKey | CsvLoad | MakeEmbeddings | ChromaOpen | ChromaFromDocuments
  | AsRetriever | MakeChatModel | MakePrompt | MakeChain

datatype call = ValidationCall string | EmbedDocuments "document list"
  | PredictCall llm_prompt | ChainCall string

datatype ui_msg = UiError string | UiWarning string | UiSuccess string
  | UiChat string string | UiRerun

record world =
  faults :: "step \<Rightarrow> exn option"
  path_exists :: "string \<Rightarrow> bool"
  dataset :: "document list"
  persisted :: "document list"
  predict_reply :: "llm_prompt \<Rightarrow> exn + string"
  chain_reply :: "string \<Rightarrow> exn + string"
  similarity :: "string \<Rightarrow> document \<Rightarrow> real"
  calls :: "call list"
  ui :: "ui_msg list"

text \<open>
  \<open>faults w s = Some e\<close>: in this world the external call \<open>s\<close> raises an exception
  whose text is \<open>e\<close>. \<open>path_exists\<close> is \<open>os.path.exists\<close>; \<open>dataset\<close> is what
  \<open>CSVLoader.load\<close> reads; \<open>persisted\<close> is what the index stored under \<open>chroma_db\<close>
  holds; \<open>predict_reply\<close> is what the language-model service answers to a prompt sent
  through the chat model; \<open>chain_reply\<close> is what the services behind a call of the chain
  (embedding the query, then the generation) yield for a query, the generated text or the
  failure one of them raises; \<open>similarity\<close> scores a chunk against a query as the
  embeddings do. \<open>calls\<close> and \<open>ui\<close> grow at the end.
\<close>

definition st_error :: "string \<Rightarrow> world \<Rightarrow> world" where
  "st_error m w = w\<lparr>ui := ui w @ [UiError m]\<rparr>"

definition st_warning :: "string \<Rightarrow> world \<Rightarrow> world" where
  "st_warning m w = w\<lparr>ui := ui w @ [UiWarning m]\<rparr>"

definition st_success :: "string \<Rightarrow> world \<Rightarrow> world" where
  "st_success m w = w\<lparr>ui := ui w @ [UiSuccess m]\<rparr>"

definition st_rerun :: "world \<Rightarrow> world" where
  "st_rerun w = w\<lparr>ui := ui w @ [UiRerun]\<rparr>"

definition external :: "world \<Rightarrow> step \<Rightarrow> 'a \<Rightarrow> exn + 'a" where
  "external w s a = (case faults w s of Some e \<Rightarrow> Inl e | None \<Rightarrow> Inr a)"

subsection \<open>Chunker\<close>

text \<open>
  Modelled from the spec: \<open>RecursiveCharacterTextSplitter.split_documents\<close> is langchain
  code and not part of the program's source, which only fixes the configuration
  (chunk size 1000, overlap 100, lines 57 to 61). The spec's policy is a greedy forward
  split: take up to the maximum length, then slide forward by maximum length minus
  overlap; a text no longer than the maximum is one chunk; every chunk keeps the
  reference to its record. With an overlap that is not below the maximum the window
  cannot slide and the text is cut to one window.
\<close>

record splitter =
  chunk_size :: nat
  chunk_overlap :: nat

definition text_splitter :: splitter where
  "text_splitter = \<lparr>chunk_size = 1000, chunk_overlap = 100\<rparr>"

function split_text :: "nat \<Rightarrow> nat \<Rightarrow> string \<Rightarrow> string list" where
  "split_text maxLen overlap t =
     (if length t \<le> maxLen \<or> maxLen \<le> overlap then [take maxLen t]
      else take maxLen t # split_text maxLen overlap (drop (maxLen - overlap) t))"
  by pat_completeness auto
termination
  by (relation "measure (\<lambda>(maxLen, overlap, t). length t)") auto

declare split_text.simps [simp del]

definition split_document :: "splitter \<Rightarrow> document \<Rightarrow> document list" where
  "split_document sp d =
     map (\<lambda>t. d\<lparr>page_content := t\<rparr>) (split_text (chunk_size sp) (chunk_overlap sp) (page_content d))"

definition split_documents :: "splitter \<Rightarrow> document list \<Rightarrow> document list" where
  "split_documents sp ds = concat (map (split_document sp) ds)"

subsection \<open>Index Builder and Retriever\<close>

text \<open>
  Modelled from the spec: the two ways the program obtains a \<open>Chroma\<close> store are
  library code. Opening a persisted index reads what the storage location holds and
  embeds nothing. \<open>Chroma.from_documents\<close> embeds every chunk and writes a fresh index
  to the location; when the embedding service fails nothing is written.
\<close>

definition chroma_open :: "string \<Rightarrow> openai_embeddings \<Rightarrow> world \<Rightarrow> (exn + chroma) \<times> world" where
  "chroma_open dir emb w = (external w ChromaOpen (Chroma dir emb (persisted w)), w)"

definition chroma_from_documents ::
    "document list \<Rightarrow> openai_embeddings \<Rightarrow> string \<Rightarrow> world \<Rightarrow> (exn + chroma) \<times> world" where
  "chroma_from_documents docs emb dir w =
     (let w1 = w\<lparr>calls := calls w @ [EmbedDocuments docs]\<rparr> in
      case faults w ChromaFromDocuments of
        Some e \<Rightarrow> (Inl e, w1)
      | None \<Rightarrow> (Inr (Chroma dir emb docs),
                 w1\<lparr>path_exists := (path_exists w)(dir := True), persisted := docs\<rparr>))"

text \<open>
  Modelled from the spec: the similarity search behind the retriever is library code;
  the source fixes the strategy and the width (\<open>k = 5\<close>, lines 83 to 86). The spec's
  retriever returns the \<open>k\<close> chunks most similar to the query, most similar first, and
  all chunks when the index holds fewer than \<open>k\<close>. The similarity of a chunk to a query
  is a parameter with values in a linear order.
\<close>

fun insert_desc :: "('a \<Rightarrow> 'b::linorder) \<Rightarrow> 'a \<Rightarrow> 'a list \<Rightarrow> 'a list" where
  "insert_desc f x [] = [x]"
| "insert_desc f x (y # ys) = (if f y \<le> f x then x # y # ys else y # insert_desc f x ys)"

fun rank_desc :: "('a \<Rightarrow> 'b::linorder) \<Rightarrow> 'a list \<Rightarrow> 'a list" where
  "rank_desc f [] = []"
| "rank_desc f (x # xs) = insert_desc f x (rank_desc f xs)"

fun get_relevant_documents ::
    "(string \<Rightarrow> document \<Rightarrow> 'b::linorder) \<Rightarrow> vs_retriever \<Rightarrow> string \<Rightarrow> document list" where
  "get_relevant_documents sim (VectorStoreRetriever (Chroma dir emb index) search_type k) query =
     take k (rank_desc (sim query) index)"

subsection \<open>The class RealEstateChatbot\<close>

definition new_chatbot :: chatbot where
  "new_chatbot = \<lparr>vectorstore = None, retriever = None, chain = None, chat_model = None\<rparr>"

definition test_api_key :: "string \<Rightarrow> world \<Rightarrow> bool \<times> world" where
  "test_api_key openai_api_key w =
     (let w1 = w\<lparr>calls := calls w @ [ValidationCall openai_api_key]\<rparr> in
      case faults w TestApiKey of
        None \<Rightarrow> (True, w1)
      | Some e \<Rightarrow> (False, st_error (''Invalid API Key: '' @ e) w1))"

text \<open>
  The body of the \<open>with st.spinner\<close> block (lines 51 to 123). The fields of \<open>self\<close> are
  assigned one after the other; when a later call raises, the assignments already made
  stay. The result is the exception, if any, with the object and the world at that point.
\<close>

definition load_and_process :: "string \<Rightarrow> chatbot \<Rightarrow> world \<Rightarrow> exn option \<times> chatbot \<times> world" where
  "load_and_process openai_api_key self w =
     (case external w CsvLoad (dataset w) of
        Inl e \<Rightarrow> (Some e, self, w)
      | Inr documents \<Rightarrow>
     let docs = split_documents text_splitter documents in
     (case external w MakeEmbeddings (OpenAIEmbeddings ''text-embedding-3-large'' openai_api_key) of
        Inl e \<Rightarrow> (Some e, self, w)
      | Inr embeddings \<Rightarrow>
     (case (if path_exists w ''chroma_db''
            then chroma_open ''chroma_db'' embeddings w
            else chroma_from_documents docs embeddings ''chroma_db'' w) of
        (Inl e, w1) \<Rightarrow> (Some e, self, w1)
      | (Inr vs, w1) \<Rightarrow>
     let self1 = self\<lparr>vectorstore := Some vs\<rparr> in
     (case external w1 AsRetriever (VectorStoreRetriever vs ''similarity'' 5) of
        Inl e \<Rightarrow> (Some e, self1, w1)
      | Inr r \<Rightarrow>
     let self2 = self1\<lparr>retriever := Some r\<rparr> in
     (case external w1 MakeChatModel (ChatOpenAI ''gpt-4o'' 0 openai_api_key) of
        Inl e \<Rightarrow> (Some e, self2, w1)
      | Inr m \<Rightarrow>
     let self3 = self2\<lparr>chat_model := Some m\<rparr> in
     (case external w1 MakePrompt PropertyPrompt of
        Inl e \<Rightarrow> (Some e, self3, w1)
      | Inr PROMPT \<Rightarrow>
     (case external w1 MakeChain (RetrievalQA m ''stuff'' r True PROMPT) of
        Inl e \<Rightarrow> (Some e, self3, w1)
      | Inr c \<Rightarrow> (None, self3\<lparr>chain := Some c\<rparr>, w1))))))))"

definition initialize_components :: "string \<Rightarrow> chatbot \<Rightarrow> world \<Rightarrow> bool \<times> chatbot \<times> world" where
  "initialize_components openai_api_key self w =
     (case test_api_key openai_api_key w of
        (False, w1) \<Rightarrow> (False, self, w1)
      | (True, w1) \<Rightarrow>
          if \<not> path_exists w1 ''Property_data.csv''
          then (False, self, st_error ''Property_data.csv file not found!'' w1)
          else (case load_and_process openai_api_key self w1 of
                  (Some e, self', w2) \<Rightarrow> (False, self', st_error (''Error initializing chatbot: '' @ e) w2)
                | (None, self', w2) \<Rightarrow> (True, self', st_success ''Chatbot initialized successfully!'' w2)))"

text \<open>
  \<open>self.chat_model.predict(prompt)\<close>. On an object whose field is still \<open>None\<close>
  Python raises before any call is made.
\<close>

definition predict :: "chat_openai option \<Rightarrow> llm_prompt \<Rightarrow> world \<Rightarrow> (exn + string) \<times> world" where
  "predict m p w =
     (case m of
        None \<Rightarrow> (Inl (CHR 0x27 # ''NoneType'' @ [CHR 0x27] @ '' object has no attribute ''
                      @ [CHR 0x27] @ ''predict'' @ [CHR 0x27]), w)
      | Some _ \<Rightarrow> (predict_reply w p, w\<lparr>calls := calls w @ [PredictCall p]\<rparr>))"

text \<open>
  Modelled from the spec: what \<open>self.chain({"query": query})\<close> does, the call of a
  \<open>RetrievalQA\<close> chain, is library code. The spec's grounded variant retrieves the
  chunks through the chain's retriever, puts them with the query into the prompt template
  and issues one generation call; it returns the generated text and, for a chain built
  with \<open>return_source_documents\<close>, the chunks it retrieved. A failure of the services
  propagates. On an object whose field is still \<open>None\<close> Python raises before any call
  is made.
\<close>

definition call_chain :: "retrieval_qa option \<Rightarrow> string \<Rightarrow> world \<Rightarrow> (exn + chain_result) \<times> world" where
  "call_chain c query w =
     (case c of
        None \<Rightarrow> (Inl (CHR 0x27 # ''NoneType'' @ [CHR 0x27] @ '' object is not callable''), w)
      | Some (RetrievalQA llm chain_type r return_source_documents prompt) \<Rightarrow>
          (let docs = get_relevant_documents (similarity w) r query
           in (case chain_reply w query of
                 Inl e \<Rightarrow> Inl e
               | Inr text \<Rightarrow>
                   Inr \<lparr>res_result = Some text,
                        res_source_documents =
                          (if return_source_documents then Some docs else None)\<rparr>,
               w\<lparr>calls := calls w @ [ChainCall query]\<rparr>)))"

definition classify_query_intent :: "chatbot \<Rightarrow> string \<Rightarrow> world \<Rightarrow> string \<times> world" where
  "classify_query_intent self query w =
     (case predict (chat_model self) (ClassificationPrompt query) w of
        (Inr response, w1) \<Rightarrow> (upper (strip response), w1)
      | (Inl e, w1) \<Rightarrow> (''PROPERTY'', w1))"

definition general_fallback :: string where
  "general_fallback =
     ''Hello! I'm your Real Estate Assistant. How can I help you find the perfect property today?''"

definition get_general_response ::
    "chatbot \<Rightarrow> string \<Rightarrow> world \<Rightarrow> (string \<times> document list) \<times> world" where
  "get_general_response self query w =
     (case predict (chat_model self) (GeneralPrompt query) w of
        (Inr response, w1) \<Rightarrow> ((strip response, []), w1)
      | (Inl e, w1) \<Rightarrow> ((general_fallback, []), w1))"

definition property_apology :: "exn \<Rightarrow> string" where
  "property_apology e = ''I'm sorry, I encountered an error while searching for properties: '' @ e"

text \<open>\<open>result['result']\<close> raises \<open>KeyError\<close> on a missing key; \<open>result.get\<close> does not.\<close>

definition get_property_response ::
    "chatbot \<Rightarrow> string \<Rightarrow> world \<Rightarrow> (string \<times> document list) \<times> world" where
  "get_property_response self query w =
     (case call_chain (chain self) query w of
        (Inl e, w1) \<Rightarrow> ((property_apology e, []), w1)
      | (Inr result, w1) \<Rightarrow>
          (case res_result result of
             None \<Rightarrow> ((property_apology (CHR 0x27 # ''result'' @ [CHR 0x27]), []), w1)
           | Some text \<Rightarrow>
               ((text, case res_source_documents result of None \<Rightarrow> [] | Some ds \<Rightarrow> ds), w1)))"

text \<open>
  The three methods called here catch every exception themselves, so the handler of
  \<open>get_response\<close> (lines 199 and 200) has nothing to catch.
\<close>

definition get_response :: "chatbot \<Rightarrow> string \<Rightarrow> world \<Rightarrow> (string \<times> document list) \<times> world" where
  "get_response self query w =
     (case classify_query_intent self query w of
        (intent, w1) \<Rightarrow>
          if intent = ''GENERAL'' then get_general_response self query w1
          else get_property_response self query w1)"

subsection \<open>The script: one run of main\<close>

text \<open>
  Streamlit runs \<open>main\<close> from the top on every interaction. \<open>st.session_state\<close> is what
  survives from one run to the next; the widgets' values are the inputs of the run.
  \<open>st.rerun()\<close> ends the run at once. Titles, headers and the sidebar texts are left out.
\<close>

record session_state =
  chatbot :: "chatbot option"
  initialized :: bool
  messages :: "message list option"

record inputs =
  openai_api_key :: string
  user_query :: "string option"
  clear_clicked :: bool

definition greeting :: message where
  "greeting = \<lparr>role = ''assistant'',
                content = ''Hello! I'm your Real Estate Assistant. How can I help you today?''\<rparr>"

definition show_message :: "message \<Rightarrow> ui_msg" where
  "show_message m = (if role m = ''user'' then UiChat ''user'' (content m)
                     else UiChat ''assistant'' (content m))"

definition main :: "inputs \<Rightarrow> session_state \<Rightarrow> world \<Rightarrow> session_state \<times> world" where
  "main inp s w =
     (let key = openai_api_key inp;
          (cb, init) = (case chatbot s of None \<Rightarrow> (new_chatbot, False)
                                        | Some b \<Rightarrow> (b, initialized s));
          (init1, cb1, w1) = (if key \<noteq> [] \<and> \<not> init then initialize_components key cb w
                               else (init, cb, w));
          s1 = s\<lparr>chatbot := Some cb1, initialized := init1\<rparr>
      in if key = [] then
           (s1, st_warning ''Please enter your OpenAI API Key in the sidebar to start chatting.'' w1)
         else if \<not> init1 then
           (s1, st_error ''Chatbot not initialized. Please check your API key and dataset.'' w1)
         else
           let msgs = (case messages s1 of None \<Rightarrow> [greeting] | Some ms \<Rightarrow> ms);
               w2 = w1\<lparr>ui := ui w1 @ map show_message msgs\<rparr>
           in (case user_query inp of
                 Some q \<Rightarrow>
                   if q \<noteq> [] then
                     (let msgs1 = msgs @ [\<lparr>role = ''user'', content = q\<rparr>];
                          ((response, source_docs), w3) = get_response cb1 q w2;
                          msgs2 = msgs1 @ [\<lparr>role = ''assistant'', content = response\<rparr>]
                      in (s1\<lparr>messages := Some msgs2\<rparr>, st_rerun w3))
                   else if clear_clicked inp then (s1\<lparr>messages := Some [greeting]\<rparr>, st_rerun w2)
                   else (s1\<lparr>messages := Some msgs\<rparr>, w2)
               | None \<Rightarrow>
                   if clear_clicked inp then (s1\<lparr>messages := Some [greeting]\<rparr>, st_rerun w2)
                   else (s1\<lparr>messages := Some msgs\<rparr>, w2)))"

text \<open>
  A session is a sequence of runs. Each run meets the world as it is then: between two
  runs the file system and the services may have changed.
\<close>

definition fresh_session :: session_state where
  "fresh_session = \<lparr>chatbot = None, initialized = False, messages = None\<rparr>"

fun session :: "(inputs \<times> world) list \<Rightarrow> session_state \<Rightarrow> (session_state \<times> world) list" where
  "session [] s = []"
| "session ((inp, w) # runs) s = (let (s', w') = main inp s w in (s', w') # session runs s')"

subsection \<open>Sample objects\<close>

text \<open>
  A world in which every call succeeds, the dataset holds one row and no index is stored
  yet, and the chatbot that initialization builds there. The examples below run on them.
\<close>

definition sample_doc :: document where
  "sample_doc = \<lparr>page_content = ''Location: DHA Lahore'', source = ''Property_data.csv'', row = 0\<rparr>"

definition sample_world :: world where
  "sample_world =
     \<lparr>faults = (\<lambda>s. None),
      path_exists = (\<lambda>p. p = ''Property_data.csv''),
      dataset = [sample_doc],
      persisted = [],
      predict_reply = (\<lambda>p. case p of
          ClassificationPrompt q \<Rightarrow> if q = ''hi'' then Inr '' general '' else Inr ''Property''
        | GeneralPrompt q \<Rightarrow> Inr ''Hello there! ''),
      chain_reply = (\<lambda>q. Inr ''One house in DHA Lahore.''),
      similarity = (\<lambda>q d. real (row d)),
      calls = [],
      ui = []\<rparr>"

definition sample_store :: chroma where
  "sample_store =
     Chroma ''chroma_db'' (OpenAIEmbeddings ''text-embedding-3-large'' ''sk-test'') [sample_doc]"

definition sample_bot :: chatbot where
  "sample_bot =
     \<lparr>vectorstore = Some sample_store,
      retriever = Some (VectorStoreRetriever sample_store ''similarity'' 5),
      chain = Some (RetrievalQA (ChatOpenAI ''gpt-4o'' 0 ''sk-test'') ''stuff''
                      (VectorStoreRetriever sample_store ''similarity'' 5) True PropertyPrompt),
      chat_model = Some (ChatOpenAI ''gpt-4o'' 0 ''sk-test'')\<rparr>"

text \<open>
  A world whose classification reply is the word general between a no-break space and a
  NEL.
\<close>

definition nbsp_world :: world where
  "nbsp_world = sample_world\<lparr>predict_reply := (\<lambda>p. Inr (CHR 0xA0 # ''general'' @ [CHR 0x85]))\<rparr>"

text \<open>
  A world whose storage location already holds an index, built from another row than the
  dataset now has; a world without the dataset file; a world in which building the chain
  raises.
\<close>

definition stale_doc :: document where
  "stale_doc = \<lparr>page_content = ''Location: Clifton Karachi'', source = ''Property_data.csv'', row = 7\<rparr>"

definition reuse_world :: world where
  "reuse_world = sample_world\<lparr>path_exists := (\<lambda>p. True), persisted := [stale_doc]\<rparr>"

definition missing_dataset_world :: world where
  "missing_dataset_world = sample_world\<lparr>path_exists := (\<lambda>p. False)\<rparr>"

definition chain_fault_world :: world where
  "chain_fault_world = sample_world\<lparr>faults := (\<lambda>s. if s = MakeChain then Some ''boom'' else None)\<rparr>"

text \<open>A record of 2000 characters, and an index of seven chunks.\<close>

definition long_doc :: document where
  "long_doc = \<lparr>page_content = replicate 2000 CHR ''a'', source = ''Property_data.csv'', row = 3\<rparr>"

definition seven_listings :: "document list" where
  "seven_listings =
     map (\<lambda>n. \<lparr>page_content = ''Location: Bahria Town'', source = ''Property_data.csv'', row = n\<rparr>)
       [0, 1, 2, 3, 4, 5, 6]"

definition seven_world :: world where
  "seven_world = sample_world\<lparr>path_exists := (\<lambda>p. True), persisted := seven_listings\<rparr>"

text \<open>
  Three runs' inputs (the credential alone, a query, the clear button) and a session
  that is initialized and has had one turn.
\<close>

definition key_only :: inputs where
  "key_only = \<lparr>openai_api_key = ''sk-test'', user_query = None, clear_clicked = False\<rparr>"

definition ask_flats :: inputs where
  "ask_flats = \<lparr>openai_api_key = ''sk-test'', user_query = Some ''flats'', clear_clicked = False\<rparr>"

definition press_clear :: inputs where
  "press_clear = \<lparr>openai_api_key = ''sk-test'', user_query = None, clear_clicked = True\<rparr>"

definition sample_session :: session_state where
  "sample_session =
     \<lparr>chatbot = Some sample_bot, initialized = True,
      messages = Some [greeting, \<lparr>role = ''user'', content = ''hi''\<rparr>,
                       \<lparr>role = ''assistant'', content = ''Hello there!''\<rparr>]\<rparr>"

subsection \<open>Where an initialization fails\<close>

text \<open>
  The calls of \<open>initialize_components\<close> up to and including the one that yields the
  vector store. When one of them fails no field of the chatbot has been assigned yet.
\<close>

definition fails_before_store :: "world \<Rightarrow> bool" where
  "fails_before_store w =
     (faults w TestApiKey \<noteq> None \<or> \<not> path_exists w ''Property_data.csv''
      \<or> faults w CsvLoad \<noteq> None \<or> faults w MakeEmbeddings \<noteq> None
      \<or> (if path_exists w ''chroma_db'' then faults w ChromaOpen \<noteq> None
          else faults w ChromaFromDocuments \<noteq> None))"

subsection \<open>A run that accepts no chat turn\<close>

text \<open>
  The run leaves the session uninitialized and its history as it was in \<open>s\<close>, calls
  no service except, at most, the validation of the credential, and the last thing on the
  page is the setup message: the warning when no credential is entered, the error
  otherwise.
\<close>

definition not_initialized_error :: ui_msg where
  "not_initialized_error = UiError ''Chatbot not initialized. Please check your API key and dataset.''"

definition enter_key_warning :: ui_msg where
  "enter_key_warning = UiWarning ''Please enter your OpenAI API Key in the sidebar to start chatting.''"

definition rejected :: "session_state \<Rightarrow> inputs \<times> world \<Rightarrow> session_state \<times> world \<Rightarrow> bool" where
  "rejected s run out =
     (case (run, out) of ((inp, w), (s', w')) \<Rightarrow>
        \<not> initialized s' \<and> messages s' = messages s
        \<and> (calls w' = calls w \<or> calls w' = calls w @ [ValidationCall (openai_api_key inp)])
        \<and> ui w' \<noteq> []
        \<and> last (ui w') = (if openai_api_key inp = [] then enter_key_warning else not_initialized_error))"

subsection \<open>The k best of an index\<close>

text \<open>
  \<open>res\<close> is a choice of the \<open>k\<close> best chunks of \<open>index\<close> under the score \<open>f\<close>, best
  first: it has \<open>k\<close> chunks, or all of them when the index has fewer; it is ordered by
  descending score; it is taken from the index; and no chunk left behind scores above a
  chunk returned.
\<close>

definition top_k_by :: "('a \<Rightarrow> 'b::linorder) \<Rightarrow> nat \<Rightarrow> 'a list \<Rightarrow> 'a list \<Rightarrow> bool" where
  "top_k_by f k index res =
     (length res \<le> k
      \<and> length res = min k (length index)
      \<and> sorted_wrt (\<lambda>a b. f b \<le> f a) res
      \<and> mset res \<subseteq># mset index
      \<and> (\<forall>c \<in># mset index - mset res. \<forall>d \<in> set res. f c \<le> f d)
      \<and> (length index < k \<longrightarrow> mset res = mset index))"

section \<open>Routing and responses\<close>

lemma classify_initialized:
  "chat_model self = Some m \<Longrightarrow>
   classify_query_intent self q w =
     (case predict_reply w (ClassificationPrompt q) of
        Inl e \<Rightarrow> ''PROPERTY'' | Inr r \<Rightarrow> upper (strip r),
      w\<lparr>calls := calls w @ [PredictCall (ClassificationPrompt q)]\<rparr>)"
  by (simp add: classify_query_intent_def predict_def split: sum.splits)

lemma classify_uninitialized:
  "chat_model self = None \<Longrightarrow> classify_query_intent self q w = (''PROPERTY'', w)"
  by (simp add: classify_query_intent_def predict_def)

lemma general_calls:
  "chat_model self = Some m \<Longrightarrow>
   calls (snd (get_general_response self q w)) = calls w @ [PredictCall (GeneralPrompt q)]"
  by (simp add: get_general_response_def predict_def split: sum.splits)

lemma general_docs: "snd (fst (get_general_response self q w)) = []"
  by (simp add: get_general_response_def split: prod.splits sum.splits)

lemma property_calls:
  "chain self = Some c \<Longrightarrow>
   calls (snd (get_property_response self q w)) = calls w @ [ChainCall q]"
  by (simp add: get_property_response_def call_chain_def Let_def
        split: sum.splits option.splits retrieval_qa.splits)

text \<open>
  C2. A query goes to the conversational path only when the classification call returns
  and its reply, trimmed of white space and upper-cased, is exactly GENERAL. When the call raises (also
  because the chat model was never created) or the normalized reply is any other token,
  the query goes to the retrieval path. On an initialized chatbot the second call made is
  the general prompt in the first case and the chain in all others.
\<close>

theorem classification_routing:
  "((chat_model self = None
       \<or> (\<exists>e. predict_reply w (ClassificationPrompt q) = Inl e)
       \<or> (\<exists>r. predict_reply w (ClassificationPrompt q) = Inr r \<and> upper (strip r) \<noteq> ''GENERAL''))
      \<longrightarrow> get_response self q w =
            get_property_response self q (snd (classify_query_intent self q w)))
   \<and> (\<forall>r. chat_model self \<noteq> None \<and> predict_reply w (ClassificationPrompt q) = Inr r
            \<and> upper (strip r) = ''GENERAL''
      \<longrightarrow> get_response self q w =
            get_general_response self q (snd (classify_query_intent self q w)))
   \<and> (chat_model self \<noteq> None \<and> chain self \<noteq> None
      \<longrightarrow> calls (snd (get_response self q w)) =
            calls w @ [PredictCall (ClassificationPrompt q),
                       if (\<exists>r. predict_reply w (ClassificationPrompt q) = Inr r
                                \<and> upper (strip r) = ''GENERAL'')
                       then PredictCall (GeneralPrompt q) else ChainCall q])"
proof (cases "chat_model self")
  case None
  then show ?thesis
    by (simp add: get_response_def classify_uninitialized)
next
  case (Some m)
  show ?thesis
  proof (cases "predict_reply w (ClassificationPrompt q)")
    case (Inl e)
    with Some show ?thesis
      by (auto simp add: get_response_def classify_initialized property_calls)
  next
    case (Inr r)
    with Some show ?thesis
      by (auto simp add: get_response_def classify_initialized property_calls general_calls)
  qed
qed

theorem classification_routing_witness:
  "chat_model sample_bot \<noteq> None \<and> chain sample_bot \<noteq> None
   \<and> predict_reply sample_world (ClassificationPrompt ''hi'') = Inr '' general ''
   \<and> upper (strip '' general '') = ''GENERAL''
   \<and> get_response sample_bot ''hi'' sample_world =
       get_general_response sample_bot ''hi'' (snd (classify_query_intent sample_bot ''hi'' sample_world))
   \<and> predict_reply sample_world (ClassificationPrompt ''flats'') = Inr ''Property''
   \<and> upper (strip ''Property'') \<noteq> ''GENERAL''
   \<and> get_response sample_bot ''flats'' sample_world =
       get_property_response sample_bot ''flats'' (snd (classify_query_intent sample_bot ''flats'' sample_world))
   \<and> calls (snd (get_response sample_bot ''flats'' sample_world)) =
       [PredictCall (ClassificationPrompt ''flats''), ChainCall ''flats'']
   \<and> predict_reply nbsp_world (ClassificationPrompt ''hi'') = Inr (CHR 0xA0 # ''general'' @ [CHR 0x85])
   \<and> upper (strip (CHR 0xA0 # ''general'' @ [CHR 0x85])) = ''GENERAL''
   \<and> get_response sample_bot ''hi'' nbsp_world =
       get_general_response sample_bot ''hi'' (snd (classify_query_intent sample_bot ''hi'' nbsp_world))"
proof -
  have m: "chat_model sample_bot \<noteq> None" by (simp add: sample_bot_def)
  have c: "chain sample_bot \<noteq> None" by (simp add: sample_bot_def)
  have n: "predict_reply nbsp_world (ClassificationPrompt ''hi'') = Inr (CHR 0xA0 # ''general'' @ [CHR 0x85])"
    by (simp add: nbsp_world_def)
  have un: "upper (strip (CHR 0xA0 # ''general'' @ [CHR 0x85])) = ''GENERAL''" by code_simp
  have g: "predict_reply sample_world (ClassificationPrompt ''hi'') = Inr '' general ''"
    by (simp add: sample_world_def)
  have p: "predict_reply sample_world (ClassificationPrompt ''flats'') = Inr ''Property''"
    by (simp add: sample_world_def)
  have ug: "upper (strip '' general '') = ''GENERAL''" by code_simp
  have up: "upper (strip ''Property'') \<noteq> ''GENERAL''" by code_simp
  have cs: "calls sample_world = []" by (simp add: sample_world_def)
  from classification_routing [of sample_bot sample_world "''hi''"]
       classification_routing [of sample_bot sample_world "''flats''"]
       classification_routing [of sample_bot nbsp_world "''hi''"] m c g p ug up cs n un
  show ?thesis by auto
qed

lemma property_failure:
  "chain self = Some c \<Longrightarrow> chain_reply w q = Inl e \<Longrightarrow>
   fst (get_property_response self q w) = (property_apology e, [])"
  by (simp add: get_property_response_def call_chain_def Let_def split: retrieval_qa.splits)

lemma general_failure:
  "chat_model self = Some m \<Longrightarrow> predict_reply w (GeneralPrompt q) = Inl e \<Longrightarrow>
   fst (get_general_response self q w) = (general_fallback, [])"
  by (simp add: get_general_response_def predict_def)

lemma property_success:
  "chain self = Some (RetrievalQA m ct r rsd p) \<Longrightarrow> chain_reply w q = Inr t \<Longrightarrow>
   fst (get_property_response self q w) =
     (t, if rsd then get_relevant_documents (similarity w) r q else [])"
  by (simp add: get_property_response_def call_chain_def Let_def)

lemma property_success_text:
  "chain self = Some c \<Longrightarrow> chain_reply w q = Inr t \<Longrightarrow>
   fst (fst (get_property_response self q w)) = t"
  by (simp add: get_property_response_def call_chain_def Let_def split: retrieval_qa.splits)

text \<open>
  C4, as stated, asks for one fixed apology string on the retrieval path. The handler
  of \<open>get_property_response\<close> appends the text of the exception to its apology, so two
  different failures give two different strings.
\<close>

theorem apology_varies_counterexample:
  "fst (get_property_response sample_bot ''flats''
          (sample_world\<lparr>chain_reply := (\<lambda>q. Inl ''timeout'')\<rparr>)) =
     (''I'm sorry, I encountered an error while searching for properties: timeout'', [])
   \<and> fst (get_property_response sample_bot ''flats''
          (sample_world\<lparr>chain_reply := (\<lambda>q. Inl ''quota'')\<rparr>)) =
     (''I'm sorry, I encountered an error while searching for properties: quota'', [])
   \<and> fst (fst (get_property_response sample_bot ''flats''
          (sample_world\<lparr>chain_reply := (\<lambda>q. Inl ''timeout'')\<rparr>))) \<noteq>
     fst (fst (get_property_response sample_bot ''flats''
          (sample_world\<lparr>chain_reply := (\<lambda>q. Inl ''quota'')\<rparr>)))"
  by (simp add: get_property_response_def call_chain_def sample_bot_def property_apology_def Let_def)

text \<open>
  C4, amended. On an initialized chatbot a failure raised by the generation call is
  caught and \<open>get_response\<close> still returns a response with an empty list of
  supporting chunks: on the retrieval path the fixed apology prefix followed by the text
  of the failure, on the conversational path the fixed greeting.
\<close>

theorem generation_failure_caught:
  assumes "chat_model self = Some m" and "chain self = Some c"
  shows "(\<forall>e. fst (classify_query_intent self q w) \<noteq> ''GENERAL'' \<and> chain_reply w q = Inl e \<longrightarrow>
            fst (get_response self q w) =
              (''I'm sorry, I encountered an error while searching for properties: '' @ e, []))
       \<and> (\<forall>e. fst (classify_query_intent self q w) = ''GENERAL''
              \<and> predict_reply w (GeneralPrompt q) = Inl e \<longrightarrow>
            fst (get_response self q w) =
              (''Hello! I'm your Real Estate Assistant. How can I help you find the perfect property today?'', []))"
proof -
  obtain intent w1 where cl: "classify_query_intent self q w = (intent, w1)"
    by (cases "classify_query_intent self q w")
  with assms have w1: "w1 = w\<lparr>calls := calls w @ [PredictCall (ClassificationPrompt q)]\<rparr>"
    by (simp add: classify_initialized)
  have r1: "chain_reply w1 = chain_reply w" and r2: "predict_reply w1 = predict_reply w"
    by (simp_all add: w1)
  show ?thesis
    using assms cl r1 r2
    by (auto simp add: get_response_def property_failure general_failure
          property_apology_def general_fallback_def)
qed

theorem generation_failure_caught_witness:
  "chat_model sample_bot \<noteq> None \<and> chain sample_bot \<noteq> None
   \<and> fst (classify_query_intent sample_bot ''flats'' (sample_world\<lparr>chain_reply := (\<lambda>q. Inl ''timeout'')\<rparr>))
       \<noteq> ''GENERAL''
   \<and> fst (get_response sample_bot ''flats'' (sample_world\<lparr>chain_reply := (\<lambda>q. Inl ''timeout'')\<rparr>)) =
       (''I'm sorry, I encountered an error while searching for properties: timeout'', [])
   \<and> fst (classify_query_intent sample_bot ''hi''
            (sample_world\<lparr>predict_reply := (\<lambda>p. case p of ClassificationPrompt q \<Rightarrow> Inr ''GENERAL''
                                                       | GeneralPrompt q \<Rightarrow> Inl ''rate limit'')\<rparr>))
       = ''GENERAL''
   \<and> fst (get_response sample_bot ''hi''
            (sample_world\<lparr>predict_reply := (\<lambda>p. case p of ClassificationPrompt q \<Rightarrow> Inr ''GENERAL''
                                                       | GeneralPrompt q \<Rightarrow> Inl ''rate limit'')\<rparr>)) =
       (''Hello! I'm your Real Estate Assistant. How can I help you find the perfect property today?'', [])"
proof -
  have ug: "upper (strip '' general '') = ''GENERAL''" by code_simp
  have up: "upper (strip ''Property'') \<noteq> ''GENERAL''" by code_simp
  have uG: "upper (strip ''GENERAL'') = ''GENERAL''" by code_simp
  have m: "chat_model sample_bot = Some (ChatOpenAI ''gpt-4o'' 0 ''sk-test'')"
    by (simp add: sample_bot_def)
  have c: "chain sample_bot = Some (RetrievalQA (ChatOpenAI ''gpt-4o'' 0 ''sk-test'') ''stuff''
                      (VectorStoreRetriever sample_store ''similarity'' 5) True PropertyPrompt)"
    by (simp add: sample_bot_def)
  have i1: "fst (classify_query_intent sample_bot ''flats''
                  (sample_world\<lparr>chain_reply := (\<lambda>q. Inl ''timeout'')\<rparr>)) \<noteq> ''GENERAL''"
    using up by (simp add: classify_initialized [OF m] sample_world_def)
  have i2: "fst (classify_query_intent sample_bot ''hi''
            (sample_world\<lparr>predict_reply := (\<lambda>p. case p of ClassificationPrompt q \<Rightarrow> Inr ''GENERAL''
                                                       | GeneralPrompt q \<Rightarrow> Inl ''rate limit'')\<rparr>))
       = ''GENERAL''"
    using uG by (simp add: classify_initialized [OF m])
  from generation_failure_caught [OF m c, of "''flats''" "sample_world\<lparr>chain_reply := (\<lambda>q. Inl ''timeout'')\<rparr>"]
       generation_failure_caught [OF m c, of "''hi''"
            "sample_world\<lparr>predict_reply := (\<lambda>p. case p of ClassificationPrompt q \<Rightarrow> Inr ''GENERAL''
                                                       | GeneralPrompt q \<Rightarrow> Inl ''rate limit'')\<rparr>"]
       m c i1 i2
  show ?thesis by simp
qed

section \<open>Initialization\<close>

lemmas init_defs = initialize_components_def test_api_key_def load_and_process_def
  external_def chroma_open_def chroma_from_documents_def st_error_def st_success_def Let_def

lemma init_reuse_calls:
  "path_exists w ''chroma_db'' \<Longrightarrow>
   calls (snd (snd (initialize_components key self w))) = calls w @ [ValidationCall key]"
  by (simp add: init_defs split: option.splits)

lemma init_reuse_persisted:
  "path_exists w ''chroma_db'' \<Longrightarrow>
   persisted (snd (snd (initialize_components key self w))) = persisted w"
  by (simp add: init_defs split: option.splits)

lemma init_reuse_store:
  "path_exists w ''chroma_db'' \<Longrightarrow> fst (initialize_components key self w) \<Longrightarrow>
   vectorstore (fst (snd (initialize_components key self w))) =
     Some (Chroma ''chroma_db'' (OpenAIEmbeddings ''text-embedding-3-large'' key) (persisted w))"
  by (simp add: init_defs split: option.splits if_splits)

lemma init_reuse_ignores_dataset:
  "path_exists w ''chroma_db'' \<Longrightarrow>
   fst (initialize_components key self (w\<lparr>dataset := d\<rparr>)) = fst (initialize_components key self w)
   \<and> fst (snd (initialize_components key self (w\<lparr>dataset := d\<rparr>))) =
       fst (snd (initialize_components key self w))"
  by (simp add: init_defs split: option.splits)

lemma init_build:
  assumes "\<not> path_exists w ''chroma_db''" and "faults w TestApiKey = None"
    and "path_exists w ''Property_data.csv''" and "faults w CsvLoad = None"
    and "faults w MakeEmbeddings = None" and "faults w ChromaFromDocuments = None"
  shows "calls (snd (snd (initialize_components key self w))) =
           calls w @ [ValidationCall key, EmbedDocuments (split_documents text_splitter (dataset w))]"
    and "persisted (snd (snd (initialize_components key self w))) =
           split_documents text_splitter (dataset w)"
    and "path_exists (snd (snd (initialize_components key self w))) ''chroma_db''"
    and "vectorstore (fst (snd (initialize_components key self w))) =
           Some (Chroma ''chroma_db'' (OpenAIEmbeddings ''text-embedding-3-large'' key)
                   (split_documents text_splitter (dataset w)))"
  using assms by (simp_all add: init_defs split: option.splits)

lemma init_failure_message:
  "\<not> fst (initialize_components key self w) \<Longrightarrow>
   \<exists>m. ui (snd (snd (initialize_components key self w))) = ui w @ [UiError m]"
  by (simp add: init_defs split: option.splits if_splits)

lemma init_failure_chain:
  "\<not> fst (initialize_components key self w) \<Longrightarrow>
   chain (fst (snd (initialize_components key self w))) = chain self"
  by (simp add: init_defs split: option.splits if_splits)

lemma init_failure_early:
  "fails_before_store w \<Longrightarrow> fst (snd (initialize_components key self w)) = self"
  by (auto simp add: fails_before_store_def init_defs split: option.splits if_splits)

lemma init_failure_late:
  "\<not> fails_before_store w \<Longrightarrow>
   vectorstore (fst (snd (initialize_components key self w))) \<noteq> None
   \<and> (faults w AsRetriever = None \<longrightarrow>
        retriever (fst (snd (initialize_components key self w))) \<noteq> None
        \<and> (faults w MakeChatModel = None \<longrightarrow>
             chat_model (fst (snd (initialize_components key self w))) \<noteq> None))"
  by (auto simp add: fails_before_store_def init_defs split: option.splits if_splits)

text \<open>
  C3. When the storage location \<open>chroma_db\<close> exists, initialization makes no call to
  the embedding boundary (the validation call is the only call logged), leaves the stored
  index as it is, and on success holds a store with exactly what was persisted; object and
  outcome are the same for every dataset, so the index is never compared with the current
  chunks. When the location is absent and the calls up to the store succeed, the chunks
  of the dataset are embedded once and written to the location.
\<close>

theorem index_reuse_or_build:
  "(path_exists w ''chroma_db'' \<longrightarrow>
      calls (snd (snd (initialize_components key self w))) = calls w @ [ValidationCall key]
      \<and> persisted (snd (snd (initialize_components key self w))) = persisted w
      \<and> (fst (initialize_components key self w) \<longrightarrow>
           vectorstore (fst (snd (initialize_components key self w))) =
             Some (Chroma ''chroma_db'' (OpenAIEmbeddings ''text-embedding-3-large'' key) (persisted w)))
      \<and> (\<forall>d. fst (initialize_components key self (w\<lparr>dataset := d\<rparr>)) =
                 fst (initialize_components key self w)
             \<and> fst (snd (initialize_components key self (w\<lparr>dataset := d\<rparr>))) =
                 fst (snd (initialize_components key self w))))
   \<and> (\<not> path_exists w ''chroma_db'' \<and> faults w TestApiKey = None
        \<and> path_exists w ''Property_data.csv'' \<and> faults w CsvLoad = None
        \<and> faults w MakeEmbeddings = None \<and> faults w ChromaFromDocuments = None \<longrightarrow>
      calls (snd (snd (initialize_components key self w))) =
        calls w @ [ValidationCall key, EmbedDocuments (split_documents text_splitter (dataset w))]
      \<and> persisted (snd (snd (initialize_components key self w))) =
          split_documents text_splitter (dataset w)
      \<and> path_exists (snd (snd (initialize_components key self w))) ''chroma_db''
      \<and> vectorstore (fst (snd (initialize_components key self w))) =
          Some (Chroma ''chroma_db'' (OpenAIEmbeddings ''text-embedding-3-large'' key)
                  (split_documents text_splitter (dataset w))))"
  using init_reuse_calls [of w key self] init_reuse_persisted [of w key self]
    init_reuse_store [of w key self] init_reuse_ignores_dataset [of w key self]
    init_build [of w key self]
  by blast

theorem index_reuse_or_build_witness:
  "path_exists reuse_world ''chroma_db''
   \<and> fst (initialize_components ''sk-test'' new_chatbot reuse_world)
   \<and> dataset reuse_world = [sample_doc]
   \<and> calls (snd (snd (initialize_components ''sk-test'' new_chatbot reuse_world))) =
       [ValidationCall ''sk-test'']
   \<and> vectorstore (fst (snd (initialize_components ''sk-test'' new_chatbot reuse_world))) =
       Some (Chroma ''chroma_db'' (OpenAIEmbeddings ''text-embedding-3-large'' ''sk-test'') [stale_doc])
   \<and> \<not> path_exists sample_world ''chroma_db''
   \<and> calls (snd (snd (initialize_components ''sk-test'' new_chatbot sample_world))) =
       [ValidationCall ''sk-test'', EmbedDocuments (split_documents text_splitter [sample_doc])]
   \<and> persisted (snd (snd (initialize_components ''sk-test'' new_chatbot sample_world))) =
       split_documents text_splitter [sample_doc]"
proof -
  have e: "path_exists reuse_world ''chroma_db''" by (simp add: reuse_world_def)
  have ok: "fst (initialize_components ''sk-test'' new_chatbot reuse_world)"
    by (simp add: init_defs reuse_world_def sample_world_def)
  have r: "dataset reuse_world = [sample_doc]" "calls reuse_world = []"
    "persisted reuse_world = [stale_doc]"
    by (simp_all add: reuse_world_def sample_world_def)
  have a: "\<not> path_exists sample_world ''chroma_db''" "faults sample_world TestApiKey = None"
    "path_exists sample_world ''Property_data.csv''" "faults sample_world CsvLoad = None"
    "faults sample_world MakeEmbeddings = None" "faults sample_world ChromaFromDocuments = None"
    "dataset sample_world = [sample_doc]" "calls sample_world = []"
    by (simp_all add: sample_world_def)
  from index_reuse_or_build [of reuse_world "''sk-test''" new_chatbot]
       index_reuse_or_build [of sample_world "''sk-test''" new_chatbot] e ok r a
  show ?thesis by simp
qed

text \<open>
  C5, as stated, asks that a failed initialization leaves all four fields unset. When
  building the chain raises, the vector store, the retriever and the chat model have
  already been assigned to the object and the handler does not reset them.
\<close>

theorem partial_state_counterexample:
  "\<not> fst (initialize_components ''sk-test'' new_chatbot chain_fault_world)
   \<and> vectorstore new_chatbot = None \<and> retriever new_chatbot = None \<and> chat_model new_chatbot = None
   \<and> vectorstore (fst (snd (initialize_components ''sk-test'' new_chatbot chain_fault_world))) \<noteq> None
   \<and> retriever (fst (snd (initialize_components ''sk-test'' new_chatbot chain_fault_world))) \<noteq> None
   \<and> chat_model (fst (snd (initialize_components ''sk-test'' new_chatbot chain_fault_world))) \<noteq> None"
  by (simp add: init_defs chain_fault_world_def sample_world_def new_chatbot_def)

text \<open>
  C5, amended. A failed initialization shows exactly one more message, an error, and
  never assigns the chain. When the failing step is the credential check, the dataset
  check, the load, the embeddings object, or opening or building the index, the object is
  exactly as before the attempt. When a later step fails, the fields assigned before it
  stay set: the vector store, then the retriever, then the chat model.
\<close>

theorem failed_initialization_state:
  assumes "\<not> fst (initialize_components key self w)"
  shows "(\<exists>m. ui (snd (snd (initialize_components key self w))) = ui w @ [UiError m])
       \<and> chain (fst (snd (initialize_components key self w))) = chain self
       \<and> (fails_before_store w \<longrightarrow> fst (snd (initialize_components key self w)) = self)
       \<and> (\<not> fails_before_store w \<longrightarrow>
            vectorstore (fst (snd (initialize_components key self w))) \<noteq> None
            \<and> (faults w AsRetriever = None \<longrightarrow>
                 retriever (fst (snd (initialize_components key self w))) \<noteq> None
                 \<and> (faults w MakeChatModel = None \<longrightarrow>
                      chat_model (fst (snd (initialize_components key self w))) \<noteq> None)))"
  using assms init_failure_message [of key self w] init_failure_chain [of key self w]
    init_failure_early [of w key self] init_failure_late [of w key self]
  by blast

theorem failed_initialization_state_witness:
  "\<not> fst (initialize_components ''sk-test'' new_chatbot missing_dataset_world)
   \<and> fails_before_store missing_dataset_world
   \<and> ui (snd (snd (initialize_components ''sk-test'' new_chatbot missing_dataset_world))) =
       [UiError ''Property_data.csv file not found!'']
   \<and> fst (snd (initialize_components ''sk-test'' new_chatbot missing_dataset_world)) = new_chatbot
   \<and> \<not> fst (initialize_components ''sk-test'' new_chatbot chain_fault_world)
   \<and> \<not> fails_before_store chain_fault_world
   \<and> chain (fst (snd (initialize_components ''sk-test'' new_chatbot chain_fault_world))) = None
   \<and> chat_model (fst (snd (initialize_components ''sk-test'' new_chatbot chain_fault_world))) \<noteq> None"
proof -
  have f1: "\<not> fst (initialize_components ''sk-test'' new_chatbot missing_dataset_world)"
    by (simp add: init_defs missing_dataset_world_def sample_world_def)
  have b1: "fails_before_store missing_dataset_world"
    by (simp add: fails_before_store_def missing_dataset_world_def)
  have u1: "ui (snd (snd (initialize_components ''sk-test'' new_chatbot missing_dataset_world))) =
       [UiError ''Property_data.csv file not found!'']"
    by (simp add: init_defs missing_dataset_world_def sample_world_def)
  have f2: "\<not> fst (initialize_components ''sk-test'' new_chatbot chain_fault_world)"
    by (simp add: init_defs chain_fault_world_def sample_world_def)
  have b2: "\<not> fails_before_store chain_fault_world"
    "faults chain_fault_world AsRetriever = None" "faults chain_fault_world MakeChatModel = None"
    by (simp_all add: fails_before_store_def chain_fault_world_def sample_world_def)
  have n: "chain new_chatbot = None" by (simp add: new_chatbot_def)
  from failed_initialization_state [OF f1] failed_initialization_state [OF f2] f1 b1 u1 f2 b2 n
  show ?thesis by simp
qed

section \<open>The script\<close>

lemma init_missing_dataset:
  assumes "\<not> path_exists w ''Property_data.csv''"
  shows "\<not> fst (initialize_components key cb w)"
    and "fst (snd (initialize_components key cb w)) = cb"
    and "calls (snd (snd (initialize_components key cb w))) = calls w @ [ValidationCall key]"
  using assms
  by (simp_all add: initialize_components_def test_api_key_def st_error_def Let_def
        split: option.splits)

lemma main_rejected:
  assumes "\<not> path_exists w ''Property_data.csv''" and "chatbot s = None \<or> \<not> initialized s"
  shows "rejected s (inp, w) (main inp s w)"
proof -
  obtain cb where cb: "(case chatbot s of None \<Rightarrow> (new_chatbot, False)
                            | Some b \<Rightarrow> (b, initialized s)) = (cb, False)"
    using assms(2) by (cases "chatbot s") auto
  obtain ok cb' w' where i: "initialize_components (openai_api_key inp) cb w = (ok, cb', w')"
    by (cases "initialize_components (openai_api_key inp) cb w")
  with init_missing_dataset [OF assms(1), of "openai_api_key inp" cb]
  have ok: "\<not> ok" and c: "calls w' = calls w @ [ValidationCall (openai_api_key inp)]"
    by simp_all
  show ?thesis
    using cb i ok c
    by (simp add: main_def rejected_def st_error_def st_warning_def
          enter_key_warning_def not_initialized_error_def)
qed

lemma main_rejected_state:
  assumes "rejected s (inp, w) (main inp s w)"
  shows "\<not> initialized (fst (main inp s w))" and "messages (fst (main inp s w)) = messages s"
  using assms by (simp_all add: rejected_def split: prod.splits)

lemma session_rejected:
  assumes "\<forall>run \<in> set runs. \<not> path_exists (snd run) ''Property_data.csv''"
    and "chatbot s = None \<or> \<not> initialized s" and "messages s = ms"
  shows "list_all2 (rejected (s\<lparr>messages := ms\<rparr>)) runs (session runs s)"
  using assms
proof (induction runs arbitrary: s)
  case Nil
  then show ?case by simp
next
  case (Cons run runs)
  obtain inp w where run: "run = (inp, w)" by (cases run)
  obtain s' w' where m: "main inp s w = (s', w')" by (cases "main inp s w")
  from Cons.prems run have a: "\<not> path_exists w ''Property_data.csv''" by simp
  from main_rejected [OF a Cons.prems(2), of inp] have r: "rejected s (inp, w) (main inp s w)" .
  from main_rejected_state [OF r] m have s': "\<not> initialized s'" "messages s' = ms"
    using Cons.prems(3) by simp_all
  from Cons.prems(1) have rest: "\<forall>run \<in> set runs. \<not> path_exists (snd run) ''Property_data.csv''"
    by simp
  from Cons.IH [OF rest _ s'(2)] s'(1)
  have "list_all2 (rejected (s'\<lparr>messages := ms\<rparr>)) runs (session runs s')" by simp
  moreover have "rejected (s'\<lparr>messages := ms\<rparr>) = rejected (s\<lparr>messages := ms\<rparr>)"
    by (rule ext, rule ext) (simp add: rejected_def)
  moreover from r Cons.prems(3) have "rejected (s\<lparr>messages := ms\<rparr>) (inp, w) (main inp s w)"
    by (simp add: rejected_def)
  ultimately show ?case using run m by simp
qed

lemma main_chat_interface:
  assumes "chatbot s = Some cb" and "initialized s" and "openai_api_key inp \<noteq> []"
  shows "main inp s w =
     (let msgs = (case messages s of None \<Rightarrow> [greeting] | Some ms \<Rightarrow> ms);
          w2 = w\<lparr>ui := ui w @ map show_message msgs\<rparr>
      in case user_query inp of
           Some q \<Rightarrow>
             if q \<noteq> [] then
               (s\<lparr>messages := Some (msgs @ [\<lparr>role = ''user'', content = q\<rparr>,
                    \<lparr>role = ''assistant'', content = fst (fst (get_response cb q w2))\<rparr>])\<rparr>,
                st_rerun (snd (get_response cb q w2)))
             else if clear_clicked inp then (s\<lparr>messages := Some [greeting]\<rparr>, st_rerun w2)
             else (s\<lparr>messages := Some msgs\<rparr>, w2)
         | None \<Rightarrow>
             if clear_clicked inp then (s\<lparr>messages := Some [greeting]\<rparr>, st_rerun w2)
             else (s\<lparr>messages := Some msgs\<rparr>, w2))"
  using assms
  by (simp add: main_def Let_def split: option.splits prod.splits)

text \<open>
  C6, as stated, says that after an initialization that failed for want of the dataset
  file no chat turn is ever accepted. \<open>main\<close> tries to initialize again on every run
  while the session is not initialized: the first run below finds no file and fails, the
  second finds the file and initializes, the third accepts a chat turn.
\<close>

theorem missing_dataset_counterexample:
  "\<not> path_exists missing_dataset_world ''Property_data.csv''
   \<and> \<not> fst (initialize_components ''sk-test'' new_chatbot missing_dataset_world)
   \<and> map (\<lambda>out. (initialized (fst out), messages (fst out)))
        (session [(key_only, missing_dataset_world), (key_only, sample_world),
                  (ask_flats, sample_world)] fresh_session) =
       [(False, None),
        (True, Some [greeting]),
        (True, Some [greeting, \<lparr>role = ''user'', content = ''flats''\<rparr>,
                     \<lparr>role = ''assistant'', content = ''One house in DHA Lahore.''\<rparr>])]"
proof -
  have up: "upper (strip ''Property'') \<noteq> ''GENERAL''" by code_simp
  have a: "\<not> path_exists missing_dataset_world ''Property_data.csv''"
    by (simp add: missing_dataset_world_def)
  have i1: "initialize_components ''sk-test'' new_chatbot missing_dataset_world =
              (False, new_chatbot, st_error ''Property_data.csv file not found!''
                 (missing_dataset_world\<lparr>calls := [ValidationCall ''sk-test'']\<rparr>))"
    by (simp add: init_defs missing_dataset_world_def sample_world_def)
  have i2: "fst (initialize_components ''sk-test'' new_chatbot sample_world)"
    by (simp add: init_defs sample_world_def)
  obtain cb w' where i2': "initialize_components ''sk-test'' new_chatbot sample_world = (True, cb, w')"
    using i2 by (cases "initialize_components ''sk-test'' new_chatbot sample_world") auto
  have c: "chat_model cb \<noteq> None \<and> chain cb \<noteq> None"
    using i2' by (auto simp add: init_defs sample_world_def split: if_splits)
  then obtain m ch where mc: "chat_model cb = Some m" "chain cb = Some ch" by auto
  have r1: "main key_only fresh_session missing_dataset_world =
              (\<lparr>chatbot = Some new_chatbot, initialized = False, messages = None\<rparr>,
               st_error ''Chatbot not initialized. Please check your API key and dataset.''
                 (st_error ''Property_data.csv file not found!''
                    (missing_dataset_world\<lparr>calls := [ValidationCall ''sk-test'']\<rparr>)))"
    by (simp add: main_def key_only_def fresh_session_def i1)
  have r2: "fst (main key_only \<lparr>chatbot = Some new_chatbot, initialized = False, messages = None\<rparr>
                  sample_world) =
              \<lparr>chatbot = Some cb, initialized = True, messages = Some [greeting]\<rparr>"
    by (simp add: main_def key_only_def i2')
  have g: "fst (fst (get_response cb ''flats'' w)) = ''One house in DHA Lahore.''"
    if "predict_reply w = predict_reply sample_world" "chain_reply w = chain_reply sample_world" for w
    using that up mc
    by (simp add: get_response_def classify_initialized property_success_text sample_world_def)
  have r3: "fst (main ask_flats \<lparr>chatbot = Some cb, initialized = True, messages = Some [greeting]\<rparr>
                  sample_world) =
              \<lparr>chatbot = Some cb, initialized = True,
               messages = Some [greeting, \<lparr>role = ''user'', content = ''flats''\<rparr>,
                     \<lparr>role = ''assistant'', content = ''One house in DHA Lahore.''\<rparr>]\<rparr>"
    by (simp add: main_chat_interface [of _ cb] ask_flats_def g Let_def)
  obtain s1 w1 where m1: "main key_only fresh_session missing_dataset_world = (s1, w1)"
    and s1: "s1 = \<lparr>chatbot = Some new_chatbot, initialized = False, messages = None\<rparr>"
    using r1 by simp
  obtain s2 w2 where m2: "main key_only s1 sample_world = (s2, w2)"
    by (cases "main key_only s1 sample_world")
  with r2 s1 have s2: "s2 = \<lparr>chatbot = Some cb, initialized = True, messages = Some [greeting]\<rparr>"
    by simp
  obtain s3 w3 where m3: "main ask_flats s2 sample_world = (s3, w3)"
    by (cases "main ask_flats s2 sample_world")
  with r3 s2 have s3: "s3 = \<lparr>chatbot = Some cb, initialized = True,
               messages = Some [greeting, \<lparr>role = ''user'', content = ''flats''\<rparr>,
                     \<lparr>role = ''assistant'', content = ''One house in DHA Lahore.''\<rparr>]\<rparr>"
    by simp
  show ?thesis
    using a i1 m1 m2 m3 by (simp add: s1 s2 s3)
qed

text \<open>
  C6, amended. Whenever the dataset file is absent initialization fails, and over any
  sequence of runs in each of which the file is absent, starting from a session that is
  not initialized, every run accepts no chat turn: the session stays uninitialized, the
  history is untouched, no classification or generation call is made, and the run ends on
  the setup message.
\<close>

theorem missing_dataset_blocks_chat:
  assumes "\<forall>run \<in> set runs. \<not> path_exists (snd run) ''Property_data.csv''"
    and "chatbot s = None \<or> \<not> initialized s"
  shows "(\<forall>run \<in> set runs. \<forall>key cb. \<not> fst (initialize_components key cb (snd run)))
       \<and> list_all2 (rejected s) runs (session runs s)"
proof -
  from session_rejected [OF assms refl] have "list_all2 (rejected s) runs (session runs s)"
    by simp
  with assms(1) init_missing_dataset(1) show ?thesis by blast
qed

theorem missing_dataset_blocks_chat_witness:
  "\<not> path_exists missing_dataset_world ''Property_data.csv''
   \<and> chatbot fresh_session = None
   \<and> \<not> fst (initialize_components ''sk-test'' new_chatbot missing_dataset_world)
   \<and> list_all2 (rejected fresh_session)
        [(key_only, missing_dataset_world), (ask_flats, missing_dataset_world)]
        (session [(key_only, missing_dataset_world), (ask_flats, missing_dataset_world)] fresh_session)"
proof -
  have p: "\<not> path_exists missing_dataset_world ''Property_data.csv''"
    by (simp add: missing_dataset_world_def)
  then have a: "\<forall>run \<in> set [(key_only, missing_dataset_world), (ask_flats, missing_dataset_world)].
       \<not> path_exists (snd run) ''Property_data.csv''"
    by simp
  have c: "chatbot fresh_session = None" by (simp add: fresh_session_def)
  then have b: "chatbot fresh_session = None \<or> \<not> initialized fresh_session" by simp
  from missing_dataset_blocks_chat [OF a b] p c show ?thesis by simp
qed

text \<open>
  C9. In a run that reaches the chat interface (a credential is entered and the session
  is initialized) with the clear button pressed and no query submitted, the history
  becomes the single assistant greeting, whatever it held before.
\<close>

theorem clear_history_resets:
  assumes "openai_api_key inp \<noteq> []" and "initialized (fst (main inp s w))"
    and "user_query inp = None \<or> user_query inp = Some []" and "clear_clicked inp"
  shows "messages (fst (main inp s w)) =
           Some [\<lparr>role = ''assistant'',
                  content = ''Hello! I'm your Real Estate Assistant. How can I help you today?''\<rparr>]"
  using assms
  by (auto simp add: main_def Let_def greeting_def split: prod.splits option.splits if_splits)

theorem clear_history_resets_witness:
  "openai_api_key press_clear \<noteq> [] \<and> initialized (fst (main press_clear sample_session sample_world))
   \<and> user_query press_clear = None \<and> clear_clicked press_clear
   \<and> length (case messages sample_session of None \<Rightarrow> [] | Some ms \<Rightarrow> ms) = 3
   \<and> messages (fst (main press_clear sample_session sample_world)) =
       Some [\<lparr>role = ''assistant'',
              content = ''Hello! I'm your Real Estate Assistant. How can I help you today?''\<rparr>]"
proof -
  have k: "openai_api_key press_clear \<noteq> []" "user_query press_clear = None"
    "clear_clicked press_clear"
    by (simp_all add: press_clear_def)
  have i: "initialized (fst (main press_clear sample_session sample_world))"
    by (simp add: main_chat_interface [of _ sample_bot] sample_session_def press_clear_def Let_def)
  have l: "length (case messages sample_session of None \<Rightarrow> [] | Some ms \<Rightarrow> ms) = 3"
    by (simp add: sample_session_def)
  from clear_history_resets [OF k(1) i _ k(3)] k i l show ?thesis by simp
qed

text \<open>
  C10. A chat turn on an initialized session appends to the stored history the user's
  query with role user and then the response of \<open>get_response\<close> with role assistant,
  and changes nothing else in the session; the stored messages stay as a prefix. A history
  not yet created is first created with the greeting.
\<close>

theorem chat_turn_appends_two:
  assumes "chatbot s = Some cb" and "initialized s" and "openai_api_key inp \<noteq> []"
    and "user_query inp = Some q" and "q \<noteq> []"
  shows "(\<forall>ms. messages s = Some ms \<longrightarrow>
            messages (fst (main inp s w)) =
              Some (ms @ [\<lparr>role = ''user'', content = q\<rparr>,
                          \<lparr>role = ''assistant'',
                           content = fst (fst (get_response cb q
                                       (w\<lparr>ui := ui w @ map show_message ms\<rparr>)))\<rparr>]))
       \<and> (messages s = None \<longrightarrow>
            messages (fst (main inp s w)) =
              Some ([greeting] @ [\<lparr>role = ''user'', content = q\<rparr>,
                          \<lparr>role = ''assistant'',
                           content = fst (fst (get_response cb q
                                       (w\<lparr>ui := ui w @ map show_message [greeting]\<rparr>)))\<rparr>]))
       \<and> chatbot (fst (main inp s w)) = Some cb \<and> initialized (fst (main inp s w))"
  using assms by (simp add: main_chat_interface [of s cb] Let_def)

theorem chat_turn_appends_two_witness:
  "chatbot sample_session = Some sample_bot \<and> initialized sample_session
   \<and> openai_api_key ask_flats \<noteq> [] \<and> user_query ask_flats = Some ''flats''
   \<and> messages sample_session =
       Some [greeting, \<lparr>role = ''user'', content = ''hi''\<rparr>,
             \<lparr>role = ''assistant'', content = ''Hello there!''\<rparr>]
   \<and> messages (fst (main ask_flats sample_session sample_world)) =
       Some [greeting, \<lparr>role = ''user'', content = ''hi''\<rparr>,
             \<lparr>role = ''assistant'', content = ''Hello there!''\<rparr>,
             \<lparr>role = ''user'', content = ''flats''\<rparr>,
             \<lparr>role = ''assistant'', content = ''One house in DHA Lahore.''\<rparr>]"
proof -
  have up: "upper (strip ''Property'') \<noteq> ''GENERAL''" by code_simp
  have a: "chatbot sample_session = Some sample_bot" "initialized sample_session"
    "messages sample_session =
       Some [greeting, \<lparr>role = ''user'', content = ''hi''\<rparr>,
             \<lparr>role = ''assistant'', content = ''Hello there!''\<rparr>]"
    by (simp_all add: sample_session_def)
  have k: "openai_api_key ask_flats \<noteq> []" "user_query ask_flats = Some ''flats''"
    by (simp_all add: ask_flats_def)
  have m: "chat_model sample_bot = Some (ChatOpenAI ''gpt-4o'' 0 ''sk-test'')"
    by (simp add: sample_bot_def)
  have c: "chain sample_bot = Some (RetrievalQA (ChatOpenAI ''gpt-4o'' 0 ''sk-test'') ''stuff''
                      (VectorStoreRetriever sample_store ''similarity'' 5) True PropertyPrompt)"
    by (simp add: sample_bot_def)
  have g: "fst (fst (get_response sample_bot ''flats'' (sample_world\<lparr>ui := u\<rparr>))) =
             ''One house in DHA Lahore.''" for u
    using up by (simp add: get_response_def classify_initialized [OF m] property_success_text [OF c]
                   sample_world_def)
  from chat_turn_appends_two [OF a(1) a(2) k(1) k(2), of sample_world] a k g
  show ?thesis by simp
qed

section \<open>Chunker\<close>

lemma split_text_chunk_length: "c \<in> set (split_text m ov t) \<Longrightarrow> length c \<le> m"
proof (induction m ov t rule: split_text.induct)
  case (1 m ov t)
  then show ?case
    by (subst (asm) split_text.simps) (auto split: if_splits)
qed

lemma split_text_length:
  "ov < m \<Longrightarrow>
   length (split_text m ov t) =
     (if length t \<le> m then 1 else (length t - ov + (m - ov) - 1) div (m - ov))"
proof (induction m ov t rule: split_text.induct)
  case (1 m ov t)
  show ?case
  proof (cases "length t \<le> m")
    case True
    then show ?thesis by (subst split_text.simps) simp
  next
    case False
    define d where "d = m - ov"
    define L where "L = length t"
    from "1.prems" have d: "0 < d" "m = d + ov" by (simp_all add: d_def)
    from False have L: "d + ov < L" by (simp add: L_def d)
    have step: "length (split_text m ov t) = Suc (length (split_text m ov (drop d t)))"
      using False "1.prems" by (subst split_text.simps) (simp add: d_def)
    have ih: "length (split_text m ov (drop d t)) =
                (if L - d \<le> m then 1 else (L - d - ov + d - 1) div d)"
      using "1.IH" False "1.prems" by (simp add: d_def L_def)
    have "Suc (if L - d \<le> m then 1 else (L - d - ov + d - 1) div d) = (L - ov + d - 1) div d"
    proof (cases "L - d \<le> m")
      case True
      with L d have lo: "2 * d \<le> L - ov + d - 1" and hi: "L - ov + d - 1 < 3 * d" by simp_all
      have "(L - ov + d - 1) div d = 2"
      proof -
        have "2 \<le> (L - ov + d - 1) div d"
          using lo d(1) by (simp add: less_eq_div_iff_mult_less_eq mult.commute)
        moreover have "(L - ov + d - 1) div d < 3"
          using hi d(1) by (simp add: div_less_iff_less_mult mult.commute)
        ultimately show ?thesis by simp
      qed
      with True show ?thesis by simp
    next
      case False
      define x where "x = L - d - ov"
      from False d have x: "L = x + d + ov" "0 < x" by (simp_all add: x_def)
      have gen: "(y + d) div d = Suc (y div d)" for y using d(1) by simp
      have e1: "L - ov + d - 1 = (x + d - 1) + d" using x d(1) by arith
      have e2: "L - d - ov + d - 1 = x + d - 1" using x by arith
      have "(L - ov + d - 1) div d = Suc ((L - d - ov + d - 1) div d)"
        by (simp only: e1 e2 gen)
      with False show ?thesis by (simp only: if_False)
    qed
    with step ih False show ?thesis by (simp add: d_def L_def)
  qed
qed

lemma split_text_nth:
  "ov < m \<Longrightarrow> i < length (split_text m ov t) \<Longrightarrow>
   split_text m ov t ! i = take m (drop (i * (m - ov)) t)"
proof (induction m ov t arbitrary: i rule: split_text.induct)
  case (1 m ov t)
  show ?case
  proof (cases "length t \<le> m")
    case True
    with "1.prems" show ?thesis by (subst split_text.simps) (simp add: split_text.simps)
  next
    case False
    have eq: "split_text m ov t = take m t # split_text m ov (drop (m - ov) t)"
      using False "1.prems"(1) by (subst split_text.simps) simp
    show ?thesis
    proof (cases i)
      case 0
      then show ?thesis by (simp add: eq)
    next
      case (Suc j)
      with "1.prems" eq have j: "j < length (split_text m ov (drop (m - ov) t))" by simp
      from "1.IH" [OF _ "1.prems"(1) j] False "1.prems"(1)
      have "split_text m ov (drop (m - ov) t) ! j = take m (drop (j * (m - ov)) (drop (m - ov) t))"
        by simp
      then show ?thesis by (simp add: eq Suc add.commute)
    qed
  qed
qed

lemma ceil_div_nat:
  fixes a d :: nat
  assumes "0 < d"
  shows "\<lceil>real a / real d\<rceil> = int ((a + d - 1) div d)"
proof (rule ceiling_unique)
  define n where "n = (a + d - 1) div d"
  have lo: "n * d \<le> a + d - 1" by (simp add: n_def)
  have hi: "a + d - 1 < n * d + d"
    using assms dividend_less_div_times [of d "a + d - 1"] by (simp add: n_def add.commute)
  have dpos: "0 < real d" using assms by simp
  from lo assms have "n * d + 1 \<le> a + d" by arith
  then have "real (n * d + 1) \<le> real (a + d)" by (simp only: of_nat_le_iff)
  then have "(real n - 1) * real d < real a" by (simp add: algebra_simps)
  then show "real_of_int (int ((a + d - 1) div d)) - 1 < real a / real d"
    using dpos by (simp add: pos_less_divide_eq n_def)
  from hi assms have "a \<le> n * d" by arith
  then have "real a \<le> real (n * d)" by (simp only: of_nat_le_iff)
  then have "real a \<le> real n * real d" by simp
  then show "real a / real d \<le> real_of_int (int ((a + d - 1) div d))"
    using dpos by (simp add: pos_divide_le_eq n_def)
qed

text \<open>
  C1. With maximum length 1000 and overlap 100, a record whose text has length \<open>L\<close> is
  split into exactly one chunk when \<open>L\<close> is at most 1000 and into the ceiling of
  \<open>(L - 100) / 900\<close> chunks otherwise; chunk number \<open>i\<close> is the window of up to 1000
  characters starting at \<open>900 * i\<close>; every chunk has at most 1000 characters and keeps
  the reference to its record.
\<close>

theorem chunker_count_and_bound:
  "length (split_document text_splitter d) =
     (if length (page_content d) \<le> 1000 then 1
      else nat \<lceil>(real (length (page_content d)) - 100) / 900\<rceil>)
   \<and> (\<forall>i < length (split_document text_splitter d).
         page_content (split_document text_splitter d ! i) =
           take 1000 (drop (i * 900) (page_content d)))
   \<and> (\<forall>c \<in> set (split_document text_splitter d).
         length (page_content c) \<le> 1000 \<and> source c = source d \<and> row c = row d)"
proof -
  let ?t = "page_content d"
  have len: "length (split_document text_splitter d) = length (split_text 1000 100 ?t)"
    by (simp add: split_document_def text_splitter_def)
  have count: "length (split_text 1000 100 ?t) =
      (if length ?t \<le> 1000 then 1 else nat \<lceil>(real (length ?t) - 100) / 900\<rceil>)"
  proof (cases "length ?t \<le> 1000")
    case True
    then show ?thesis using split_text_length [of 100 1000 ?t] by simp
  next
    case False
    then have r: "real (length ?t) - 100 = real (length ?t - 100)" by simp
    have "\<lceil>real (length ?t - 100) / real 900\<rceil> = int ((length ?t - 100 + 900 - 1) div 900)"
      by (rule ceil_div_nat) simp
    then have "\<lceil>(real (length ?t) - 100) / 900\<rceil> = int ((length ?t - 100 + 900 - 1) div 900)"
      by (simp only: r of_nat_numeral)
    then have "nat \<lceil>(real (length ?t) - 100) / 900\<rceil> = (length ?t - 100 + 900 - 1) div 900"
      by (simp only: nat_int)
    with False show ?thesis using split_text_length [of 100 1000 ?t] by simp
  qed
  have nth: "page_content (split_document text_splitter d ! i) = take 1000 (drop (i * 900) ?t)"
    if "i < length (split_document text_splitter d)" for i
    using that split_text_nth [of 100 1000 i ?t]
    by (simp add: split_document_def text_splitter_def)
  have bound: "length (page_content c) \<le> 1000 \<and> source c = source d \<and> row c = row d"
    if "c \<in> set (split_document text_splitter d)" for c
    using that split_text_chunk_length [of _ 1000 100 ?t]
    by (auto simp add: split_document_def text_splitter_def)
  have total: "length (split_document text_splitter d) =
      (if length ?t \<le> 1000 then 1 else nat \<lceil>(real (length ?t) - 100) / 900\<rceil>)"
    by (simp only: len count)
  show ?thesis
  proof (intro conjI allI impI ballI)
    show "length (split_document text_splitter d) =
      (if length ?t \<le> 1000 then 1 else nat \<lceil>(real (length ?t) - 100) / 900\<rceil>)"
      by (rule total)
  next
    fix i assume "i < length (split_document text_splitter d)"
    then show "page_content (split_document text_splitter d ! i) = take 1000 (drop (i * 900) ?t)"
      by (rule nth)
  next
    fix c assume c: "c \<in> set (split_document text_splitter d)"
    from bound [OF c] show "length (page_content c) \<le> 1000" by (rule conjunct1)
    from bound [OF c] show "source c = source d" by (elim conjE)
    from bound [OF c] show "row c = row d" by (elim conjE)
  qed
qed

theorem chunker_count_and_bound_witness:
  "length (page_content long_doc) = 2000
   \<and> length (split_document text_splitter long_doc) = 3
   \<and> length (page_content (split_document text_splitter long_doc ! 2)) = 200
   \<and> list_all (\<lambda>c. length (page_content c) \<le> 1000) (split_document text_splitter long_doc)"
proof -
  have l: "length (page_content long_doc) = 2000" by (simp add: long_doc_def)
  from chunker_count_and_bound [of long_doc] l
  have n: "length (split_document text_splitter long_doc) = 3" by simp
  from chunker_count_and_bound [of long_doc] l n show ?thesis by (simp add: list_all_iff)
qed

section \<open>Retriever\<close>

lemma mset_insert_desc: "mset (insert_desc f x xs) = add_mset x (mset xs)"
  by (induction xs) auto

lemma mset_rank_desc: "mset (rank_desc f xs) = mset xs"
  by (induction xs) (auto simp add: mset_insert_desc)

lemma set_insert_desc: "set (insert_desc f x xs) = insert x (set xs)"
  by (induction xs) auto

lemma length_rank_desc: "length (rank_desc f xs) = length xs"
  using mset_rank_desc [of f xs] by (metis size_mset)

lemma sorted_insert_desc:
  "sorted_wrt (\<lambda>a b. f b \<le> f a) xs \<Longrightarrow> sorted_wrt (\<lambda>a b. f b \<le> f a) (insert_desc f x xs)"
  by (induction xs) (auto simp add: set_insert_desc)

lemma sorted_rank_desc: "sorted_wrt (\<lambda>a b. f b \<le> f a) (rank_desc f xs)"
  by (induction xs) (auto simp add: sorted_insert_desc)

lemma top_k:
  fixes f :: "'a \<Rightarrow> 'b::linorder"
  defines "res \<equiv> \<lambda>k xs. take k (rank_desc f xs)"
  shows "length (res k xs) = min k (length xs)"
    and "sorted_wrt (\<lambda>a b. f b \<le> f a) (res k xs)"
    and "mset (res k xs) \<subseteq># mset xs"
    and "\<forall>c \<in># mset xs - mset (res k xs). \<forall>d \<in> set (res k xs). f c \<le> f d"
    and "length xs \<le> k \<longrightarrow> mset (res k xs) = mset xs"
proof -
  let ?r = "rank_desc f xs"
  have split: "?r = take k ?r @ drop k ?r" by simp
  show "length (res k xs) = min k (length xs)"
    by (simp add: res_def length_rank_desc min.commute)
  show "sorted_wrt (\<lambda>a b. f b \<le> f a) (res k xs)"
    unfolding res_def using sorted_rank_desc [of f xs] by (rule sorted_wrt_take)
  have m: "mset xs = mset (take k ?r) + mset (drop k ?r)"
    by (metis append_take_drop_id mset_append mset_rank_desc)
  then show "mset (res k xs) \<subseteq># mset xs" by (simp add: res_def)
  have s: "sorted_wrt (\<lambda>a b. f b \<le> f a) (take k ?r @ drop k ?r)"
    using sorted_rank_desc [of f xs] by (simp only: append_take_drop_id)
  from m have "mset xs - mset (res k xs) = mset (drop k ?r)" by (simp add: res_def)
  moreover from s have "\<forall>d \<in> set (take k ?r). \<forall>c \<in> set (drop k ?r). f c \<le> f d"
    by (simp only: sorted_wrt_append) blast
  ultimately show "\<forall>c \<in># mset xs - mset (res k xs). \<forall>d \<in> set (res k xs). f c \<le> f d"
    by (auto simp add: res_def)
  show "length xs \<le> k \<longrightarrow> mset (res k xs) = mset xs"
    by (simp add: res_def length_rank_desc mset_rank_desc)
qed

lemma init_success_retriever:
  assumes "fst (initialize_components key self w)"
  shows "retriever (fst (snd (initialize_components key self w))) =
           Some (VectorStoreRetriever
                   (Chroma ''chroma_db'' (OpenAIEmbeddings ''text-embedding-3-large'' key)
                      (if path_exists w ''chroma_db'' then persisted w
                       else split_documents text_splitter (dataset w)))
                   ''similarity'' 5)"
  using assms by (simp add: init_defs split: option.splits if_splits)

lemma retrieve_top_k:
  "top_k_by (sim query) k index
     (get_relevant_documents sim (VectorStoreRetriever (Chroma dir emb index) st k) query)"
  using top_k [where f = "sim query" and k = k and xs = index]
  by (simp add: top_k_by_def mset_rank_desc length_rank_desc)

text \<open>
  C7. The retriever that a successful initialization builds searches by similarity with
  width 5 over the chunks of the store. For every similarity score and every query it
  returns at most 5 chunks, exactly 5 when the index holds at least 5 and all of them
  when it holds fewer, in descending order of similarity, and no chunk it leaves out is
  more similar than one it returns; no similarity threshold limits the result.
\<close>

theorem retriever_top_five:
  assumes "fst (initialize_components key self w)"
  shows "\<exists>r index. retriever (fst (snd (initialize_components key self w))) = Some r
           \<and> r = VectorStoreRetriever
                   (Chroma ''chroma_db'' (OpenAIEmbeddings ''text-embedding-3-large'' key) index)
                   ''similarity'' 5
           \<and> index = (if path_exists w ''chroma_db'' then persisted w
                       else split_documents text_splitter (dataset w))
           \<and> (\<forall>(sim :: string \<Rightarrow> document \<Rightarrow> 'b::linorder) query.
                 top_k_by (sim query) 5 index (get_relevant_documents sim r query))"
  using init_success_retriever [OF assms] retrieve_top_k by blast

theorem retriever_top_five_witness:
  "fst (initialize_components ''sk-test'' new_chatbot seven_world)
   \<and> length seven_listings = 7
   \<and> (\<exists>r. retriever (fst (snd (initialize_components ''sk-test'' new_chatbot seven_world))) = Some r
         \<and> length (get_relevant_documents (\<lambda>query d. row d) r ''flats'') = 5
         \<and> sorted_wrt (\<lambda>a b. row b \<le> row a) (get_relevant_documents (\<lambda>query d. row d) r ''flats'')
         \<and> mset (get_relevant_documents (\<lambda>query d. row d) r ''flats'') \<subseteq># mset seven_listings)"
proof -
  have ok: "fst (initialize_components ''sk-test'' new_chatbot seven_world)"
    by (simp add: init_defs seven_world_def sample_world_def)
  have l: "length seven_listings = 7" by (simp add: seven_listings_def)
  have e: "path_exists seven_world ''chroma_db''" "persisted seven_world = seven_listings"
    by (simp_all add: seven_world_def)
  from retriever_top_five [where ?'b = nat, OF ok] obtain r index where
    r: "retriever (fst (snd (initialize_components ''sk-test'' new_chatbot seven_world))) = Some r"
    and i: "index = (if path_exists seven_world ''chroma_db'' then persisted seven_world
                     else split_documents text_splitter (dataset seven_world))"
    and a: "\<forall>(sim :: string \<Rightarrow> document \<Rightarrow> nat) query.
              top_k_by (sim query) 5 index (get_relevant_documents sim r query)"
    by blast
  from i e have index: "index = seven_listings" by simp
  from a have "top_k_by ((\<lambda>query d. row d) ''flats'') 5 index
                 (get_relevant_documents (\<lambda>query d. row d) r ''flats'')"
    by (rule allE) (erule allE)
  then have t: "top_k_by row 5 seven_listings (get_relevant_documents (\<lambda>query d. row d) r ''flats'')"
    by (simp add: index)
  from t l have "length (get_relevant_documents (\<lambda>query d. row d) r ''flats'') = 5"
    "sorted_wrt (\<lambda>a b. row b \<le> row a) (get_relevant_documents (\<lambda>query d. row d) r ''flats'')"
    "mset (get_relevant_documents (\<lambda>query d. row d) r ''flats'') \<subseteq># mset seven_listings"
    by (simp_all add: top_k_by_def)
  with ok l r show ?thesis by blast
qed

section \<open>Grounded responses\<close>

lemma init_success_shape:
  assumes "fst (initialize_components key self w)"
  shows "\<exists>vs m. vectorstore (fst (snd (initialize_components key self w))) = Some vs
           \<and> retriever (fst (snd (initialize_components key self w))) =
               Some (VectorStoreRetriever vs ''similarity'' 5)
           \<and> chat_model (fst (snd (initialize_components key self w))) = Some m
           \<and> chain (fst (snd (initialize_components key self w))) =
               Some (RetrievalQA m ''stuff'' (VectorStoreRetriever vs ''similarity'' 5) True
                       PropertyPrompt)"
  using assms by (simp add: init_defs split: option.splits if_splits)

lemma init_sample_bot:
  "fst (initialize_components ''sk-test'' new_chatbot sample_world)"
  "fst (snd (initialize_components ''sk-test'' new_chatbot sample_world)) = sample_bot"
  by (simp_all add: init_defs sample_world_def sample_bot_def sample_store_def new_chatbot_def
        split_documents_def split_document_def text_splitter_def split_text.simps sample_doc_def)

text \<open>
  C8. On a chatbot that \<open>initialize_components\<close> has initialized, \<open>get_response\<close> makes
  exactly one classification call and then exactly one generation call, and returns one
  pair of text and supporting chunks. With intent GENERAL the list is empty. With any
  other intent, when the chain answers, the text is the chain's and the list is what the
  chatbot's own retriever, of width 5 over its vector store, returns for the query.
\<close>

theorem one_intent_one_response:
  assumes "fst (initialize_components key self0 w0)"
    and "self = fst (snd (initialize_components key self0 w0))"
  shows "\<exists>vs. vectorstore self = Some vs
           \<and> retriever self = Some (VectorStoreRetriever vs ''similarity'' 5)
           \<and> calls (snd (get_response self q w)) =
               calls w @ [PredictCall (ClassificationPrompt q),
                          if fst (classify_query_intent self q w) = ''GENERAL''
                          then PredictCall (GeneralPrompt q) else ChainCall q]
           \<and> (fst (classify_query_intent self q w) = ''GENERAL'' \<longrightarrow>
                snd (fst (get_response self q w)) = [])
           \<and> (\<forall>t. fst (classify_query_intent self q w) \<noteq> ''GENERAL''
                  \<and> chain_reply w q = Inr t \<longrightarrow>
                fst (get_response self q w) =
                  (t, get_relevant_documents (similarity w)
                        (VectorStoreRetriever vs ''similarity'' 5) q))"
proof -
  from init_success_shape [OF assms(1)] assms(2) obtain vs m where
    vs: "vectorstore self = Some vs"
    and r: "retriever self = Some (VectorStoreRetriever vs ''similarity'' 5)"
    and m: "chat_model self = Some m"
    and c: "chain self = Some (RetrievalQA m ''stuff'' (VectorStoreRetriever vs ''similarity'' 5)
                                 True PropertyPrompt)"
    by auto
  obtain intent w1 where cl: "classify_query_intent self q w = (intent, w1)"
    by (cases "classify_query_intent self q w")
  with m have w1: "w1 = w\<lparr>calls := calls w @ [PredictCall (ClassificationPrompt q)]\<rparr>"
    by (simp add: classify_initialized)
  have r1: "chain_reply w1 = chain_reply w" and r2: "similarity w1 = similarity w"
    and r3: "calls w1 = calls w @ [PredictCall (ClassificationPrompt q)]"
    by (simp_all add: w1)
  have "calls (snd (get_response self q w)) =
          calls w @ [PredictCall (ClassificationPrompt q),
                     if intent = ''GENERAL'' then PredictCall (GeneralPrompt q) else ChainCall q]"
    using cl m c r3 by (simp add: get_response_def general_calls property_calls)
  moreover have "intent = ''GENERAL'' \<longrightarrow> snd (fst (get_response self q w)) = []"
    using cl by (simp add: get_response_def general_docs)
  moreover have "\<forall>t. intent \<noteq> ''GENERAL'' \<and> chain_reply w q = Inr t \<longrightarrow>
      fst (get_response self q w) =
        (t, get_relevant_documents (similarity w) (VectorStoreRetriever vs ''similarity'' 5) q)"
    using cl r1 r2 property_success [OF c, of w1 q] by (simp add: get_response_def)
  ultimately show ?thesis using vs r cl by simp
qed

theorem one_intent_one_response_witness:
  "fst (initialize_components ''sk-test'' new_chatbot sample_world)
   \<and> sample_bot = fst (snd (initialize_components ''sk-test'' new_chatbot sample_world))
   \<and> fst (classify_query_intent sample_bot ''hi'' sample_world) = ''GENERAL''
   \<and> snd (fst (get_response sample_bot ''hi'' sample_world)) = []
   \<and> calls (snd (get_response sample_bot ''hi'' sample_world)) =
       [PredictCall (ClassificationPrompt ''hi''), PredictCall (GeneralPrompt ''hi'')]
   \<and> fst (classify_query_intent sample_bot ''flats'' sample_world) \<noteq> ''GENERAL''
   \<and> chain_reply sample_world ''flats'' = Inr ''One house in DHA Lahore.''
   \<and> fst (get_response sample_bot ''flats'' sample_world) =
       (''One house in DHA Lahore.'', [sample_doc])
   \<and> calls (snd (get_response sample_bot ''flats'' sample_world)) =
       [PredictCall (ClassificationPrompt ''flats''), ChainCall ''flats'']"
proof -
  have ug: "upper (strip '' general '') = ''GENERAL''" by code_simp
  have up: "upper (strip ''Property'') \<noteq> ''GENERAL''" by code_simp
  have m: "chat_model sample_bot = Some (ChatOpenAI ''gpt-4o'' 0 ''sk-test'')"
    by (simp add: sample_bot_def)
  have i1: "fst (classify_query_intent sample_bot ''hi'' sample_world) = ''GENERAL''"
    using ug by (simp add: classify_initialized [OF m] sample_world_def)
  have i2: "fst (classify_query_intent sample_bot ''flats'' sample_world) \<noteq> ''GENERAL''"
    using up by (simp add: classify_initialized [OF m] sample_world_def)
  have r: "chain_reply sample_world ''flats'' = Inr ''One house in DHA Lahore.''"
    by (simp add: sample_world_def)
  have cs: "calls sample_world = []" by (simp add: sample_world_def)
  have vs: "vectorstore sample_bot = Some sample_store" by (simp add: sample_bot_def)
  have d: "get_relevant_documents f (VectorStoreRetriever sample_store ''similarity'' 5) ''flats'' =
             [sample_doc]" for f :: "string \<Rightarrow> document \<Rightarrow> real"
    by (simp add: sample_store_def)
  from one_intent_one_response [OF init_sample_bot(1) init_sample_bot(2) [symmetric], of "''hi''" sample_world]
       one_intent_one_response [OF init_sample_bot(1) init_sample_bot(2) [symmetric], of "''flats''" sample_world]
       init_sample_bot i1 i2 r cs vs d
  show ?thesis by auto
qed

end
